theory Spec2Isabelle
  imports
    Main
    "HOL-Library.Char_ord"
    "HOL-Library.List_Lexorder"
    "HOL-Library.Product_Lexorder"
    "HOL-Library.Multiset"
    "HOL-Library.Sublist"
begin

section \<open>merge\_pcr\_duplicates.py: the tables\<close>

text \<open>
  The script is a straight-line sequence of data-frame operations. A data frame is
  modelled as the list of its rows, in row order; a row is a record with one field per
  column.

  The script gives \<open>pd.read_csv\<close> no column types, so the library chooses the type of
  every column of \<open>alns\<close> from the cells it reads: a \<open>chrom\<close> column made of digits only is
  a column of numbers, a \<open>start\<close> column with a value too wide for the integer type is a
  column of text, and a cell that is absent or spelled as a missing value (\<open>NA\<close>, the
  empty field) is a missing value. The model is therefore parametric in the cell types
  \<open>'c\<close>, \<open>'a\<close>, \<open>'b\<close>, \<open>'d\<close> of the columns \<open>chrom\<close>, \<open>start\<close>, \<open>stop\<close>, \<open>strand\<close>, of which
  it uses only the linear order, and a cell of these columns is an \<open>option\<close>, with \<open>None\<close>
  for the missing value. For a well-formed bed6 file the types are \<open>string\<close>, \<open>int\<close>,
  \<open>int\<close>, \<open>string\<close>, and no cell is missing. Strings are compared character by character
  by their codes, integers numerically, and tuples lexicographically, as Python compares
  \<open>str\<close>, \<open>int\<close> and \<open>tuple\<close>. The score is carried along uninterpreted. Calls of
  \<open>logging\<close> have no effect on the tables and are left out.
\<close>

text \<open>A record of the fasta library as \<open>SeqIO.parse\<close> yields it.\<close>

record seq_record =
  rec_id :: string
  rec_seq :: string

text \<open>A cell of the column \<open>read_id\<close> of \<open>alns\<close>: a text, or a value of the column type the
  library has chosen instead (a number when every identifier is made of digits), or a
  missing value; \<open>IdOther\<close> stands for the last two.\<close>

datatype 'n id_cell = IdText string | IdOther 'n

fun is_text :: "'n id_cell \<Rightarrow> bool" where
  "is_text (IdText s) = True"
| "is_text (IdOther v) = False"

text \<open>A row of \<open>alns\<close>: the columns named in the call of \<open>pd.read_csv\<close>.\<close>

record ('c, 'a, 'b, 'n, 's, 'd) alignment =
  chrom :: "'c option"
  start :: "'a option"
  stop :: "'b option"
  read_id :: "'n id_cell"
  score :: 's
  strand :: "'d option"

text \<open>A row of \<open>bcalib\<close>: the columns of \<open>alns\<close> and the column \<open>bc\<close> of \<open>bcs\<close>, which is the
  text \<open>str(record.seq)\<close>.\<close>

record ('c, 'a, 'b, 'n, 's, 'd) joined = "('c, 'a, 'b, 'n, 's, 'd) alignment" +
  bc :: string

text \<open>A row of \<open>merged\<close>: the five grouping columns and the group size.\<close>

record ('c, 'a, 'b, 'd) merged_row =
  m_chrom :: 'c
  m_start :: 'a
  m_stop :: 'b
  m_strand :: 'd
  m_bc :: string
  ndupes :: int

text \<open>The exceptions of the join: the script's own \<open>Exception("ERROR: no common entries for
  alignments and barcode library found. ...")\<close>, and the \<open>ValueError\<close> with which
  \<open>pd.merge\<close> refuses key columns of different kinds.\<close>

datatype error = NoOverlapError | ValueError

section \<open>Loading the barcode library\<close>

text \<open>\<open>fasta_tuple_generator\<close> yields \<open>(record.id, str(record.seq))\<close> for every record, and
  \<open>pd.DataFrame.from_records(data = ..., columns = ["read_id", "bc"])\<close> makes one row of
  every tuple, in order: \<open>bcs\<close> is a table, and a repeated identifier is a repeated row.\<close>

definition fasta_tuple_generator :: "seq_record list \<Rightarrow> (string \<times> string) list" where
  "fasta_tuple_generator fasta_iterator = map (\<lambda>r. (rec_id r, rec_seq r)) fasta_iterator"

section \<open>Combining barcode library and alignments\<close>

text \<open>\<open>pd.merge(bcs, alns, on = "read_id", how = "inner", sort = False)\<close>: one row for every
  pair of a row of \<open>bcs\<close> and a row of \<open>alns\<close> with the same \<open>read_id\<close>, in the order of the
  left table. The identifiers of \<open>bcs\<close> are texts, so only a text cell of \<open>alns\<close> is equal
  to one.\<close>

definition merge_inner ::
  "(string \<times> string) list \<Rightarrow> ('c, 'a, 'b, 'n, 's, 'd) alignment list
     \<Rightarrow> ('c, 'a, 'b, 'n, 's, 'd) joined list" where
  "merge_inner bcs alns =
     concat (map (\<lambda>(rid, b).
       map (\<lambda>a. \<lparr>chrom = chrom a, start = start a, stop = stop a, read_id = read_id a,
                 score = score a, strand = strand a, bc = b\<rparr>)
           (filter (\<lambda>a. read_id a = IdText rid) alns)) bcs)"

text \<open>Before it joins, \<open>pd.merge\<close> compares the kinds of the two key columns. When the
  \<open>read_id\<close> column of \<open>alns\<close> holds a text, both columns are columns of Python objects
  and the merge is carried out. When it holds none, whether the library refuses the pair
  of columns depends on its version and on the columns; that decision is the parameter
  \<open>refuses\<close>.\<close>

definition key_refused ::
  "((string \<times> string) list \<Rightarrow> ('c, 'a, 'b, 'n, 's, 'd) alignment list \<Rightarrow> bool)
     \<Rightarrow> (string \<times> string) list \<Rightarrow> ('c, 'a, 'b, 'n, 's, 'd) alignment list \<Rightarrow> bool" where
  "key_refused refuses bcs alns =
     (\<not> list_ex is_text (map read_id alns) \<and> refuses bcs alns)"

text \<open>The merge followed by \<open>if bcalib.empty: raise Exception(...)\<close>.\<close>

definition bcalib_of ::
  "((string \<times> string) list \<Rightarrow> ('c, 'a, 'b, 'n, 's, 'd) alignment list \<Rightarrow> bool)
     \<Rightarrow> (string \<times> string) list \<Rightarrow> ('c, 'a, 'b, 'n, 's, 'd) alignment list
     \<Rightarrow> error + ('c, 'a, 'b, 'n, 's, 'd) joined list" where
  "bcalib_of refuses bcs alns =
     (if key_refused refuses bcs alns then Inl ValueError
      else let bcalib = merge_inner bcs alns
           in if bcalib = [] then Inl NoOverlapError else Inr bcalib)"

section \<open>Removing barcodes with uncalled bases\<close>

text \<open>\<open>Series.str.contains(pat)\<close> searches the pattern anywhere in the string. The pattern
  \<open>"N"\<close> has no regular-expression operator, so the search is for the substring.\<close>

fun str_contains :: "string \<Rightarrow> string \<Rightarrow> bool" where
  "str_contains pat [] = (pat = [])"
| "str_contains pat (c # cs) = (prefix pat (c # cs) \<or> str_contains pat cs)"

text \<open>\<open>bcalib.drop(bcalib[bcalib.bc.str.contains("N")].index)\<close>: the rows are labelled
  \<open>0, 1, ...\<close> by the merge; the labels of the rows whose barcode matches are collected, and
  the rows carrying one of these labels are dropped.\<close>

definition bcalib_cleaned ::
  "('c, 'a, 'b, 'n, 's, 'd) joined list \<Rightarrow> ('c, 'a, 'b, 'n, 's, 'd) joined list" where
  "bcalib_cleaned bcalib =
     (let indexed = zip [0 ..< length bcalib] bcalib;
          labels = map fst (filter (\<lambda>(i, r). str_contains ''N'' (bc r)) indexed)
      in map snd (filter (\<lambda>(i, r). i \<notin> set labels) indexed))"

section \<open>Counting and merging PCR duplicates\<close>

type_synonym ('c, 'a, 'b, 'd) group_key = "'c \<times> 'a \<times> 'b \<times> 'd \<times> string"

text \<open>The grouping columns \<open>['chrom', 'start', 'stop', 'strand', 'bc']\<close> of a row: its key,
  when none of these cells is missing.\<close>

definition group_key ::
  "('c, 'a, 'b, 'n, 's, 'd) joined \<Rightarrow> ('c, 'a, 'b, 'd) group_key option" where
  "group_key r =
     (case chrom r of None \<Rightarrow> None | Some c \<Rightarrow>
      case start r of None \<Rightarrow> None | Some s \<Rightarrow>
      case stop r of None \<Rightarrow> None | Some e \<Rightarrow>
      case strand r of None \<Rightarrow> None | Some sd \<Rightarrow> Some (c, s, e, sd, bc r))"

text \<open>\<open>groupby(keys).size()\<close>: the rows with a missing value in a grouping column are left
  out (\<open>dropna\<close>); there is one entry for every key that occurs among the others, with the
  number of rows that have it; the keys are in ascending order (\<open>sort = True\<close> is the
  default), every column in the order of its type.\<close>

definition groupby_size ::
  "('c::linorder, 'a::linorder, 'b::linorder, 'n, 's, 'd::linorder) joined list
     \<Rightarrow> (('c, 'a, 'b, 'd) group_key \<times> int) list" where
  "groupby_size rows =
     map (\<lambda>k. (k, int (length (filter (\<lambda>r. group_key r = Some k) rows))))
         (sort (remdups (List.map_filter group_key rows)))"

text \<open>\<open>reset_index()\<close> turns the keys back into columns; the size column \<open>0\<close> is renamed
  to \<open>ndupes\<close>.\<close>

definition merged ::
  "('c::linorder, 'a::linorder, 'b::linorder, 'n, 's, 'd::linorder) joined list
     \<Rightarrow> ('c, 'a, 'b, 'd) merged_row list" where
  "merged rows =
     map (\<lambda>((c, s, e, sd, b), n).
            \<lparr>m_chrom = c, m_start = s, m_stop = e, m_strand = sd, m_bc = b, ndupes = n\<rparr>)
         (groupby_size rows)"

text \<open>The key of a row of \<open>merged\<close>.\<close>

definition merged_key :: "('c, 'a, 'b, 'd) merged_row \<Rightarrow> ('c, 'a, 'b, 'd) group_key" where
  "merged_key m = (m_chrom m, m_start m, m_stop m, m_strand m, m_bc m)"

section \<open>Writing the result\<close>

text \<open>Decimal digits of a natural number, and \<open>str\<close> of an integer.\<close>

fun digits :: "nat \<Rightarrow> string" where
  "digits n = (if n < 10 then [''0123456789'' ! n]
               else digits (n div 10) @ [''0123456789'' ! (n mod 10)])"

declare digits.simps [simp del]

definition str_int :: "int \<Rightarrow> string" where
  "str_int i = (if i < 0 then CHR ''-'' # digits (nat (- i)) else digits (nat i))"

text \<open>How the writer prints a cell depends on the type of its column: a text as it is, an
  integer in decimal, another number in the library's own format. The printing of the
  four columns whose type the library chooses is a parameter of the writer;
  \<open>bed6_format\<close> is the one of a table with the types of the format.\<close>

record ('c, 'a, 'b, 'd) cell_format =
  str_chrom :: "'c \<Rightarrow> string"
  str_start :: "'a \<Rightarrow> string"
  str_stop :: "'b \<Rightarrow> string"
  str_strand :: "'d \<Rightarrow> string"

definition bed6_format :: "(string, int, int, string) cell_format" where
  "bed6_format =
     \<lparr>str_chrom = (\<lambda>s. s), str_start = str_int, str_stop = str_int, str_strand = (\<lambda>s. s)\<rparr>"

abbreviation TAB :: char where "TAB \<equiv> CHR 0x09"
abbreviation LF :: char where "LF \<equiv> CHR 0x0A"
abbreviation QUOTE :: char where "QUOTE \<equiv> CHR 0x22"

text \<open>\<open>to_csv\<close> writes through Python's \<open>csv.writer\<close> with the delimiter \<open>sep\<close>, the quote
  character \<open>"\<close>, the line terminator \<open>\n\<close> and minimal quoting: a field that contains the
  delimiter, the quote character or a character of the line terminator is written between
  quote characters, with every quote character in it doubled; any other field is written
  as it is.\<close>

definition special :: "char \<Rightarrow> bool" where
  "special c = (c = TAB \<or> c = QUOTE \<or> c = LF)"

definition csv_field :: "string \<Rightarrow> string" where
  "csv_field s =
     (if list_ex special s
      then QUOTE # concat (map (\<lambda>c. if c = QUOTE then [QUOTE, QUOTE] else [c]) s) @ [QUOTE]
      else s)"

fun join_tab :: "string list \<Rightarrow> string" where
  "join_tab [] = []"
| "join_tab [f] = f"
| "join_tab (f # g # fs) = f @ TAB # join_tab (g # fs)"

text \<open>The fields of one row, for \<open>columns = ['chrom', 'start', 'stop', 'bc', 'ndupes',
  'strand']\<close>.\<close>

definition row_fields :: "('c, 'a, 'b, 'd) cell_format \<Rightarrow> ('c, 'a, 'b, 'd) merged_row \<Rightarrow> string list" where
  "row_fields fmt m =
     [str_chrom fmt (m_chrom m), str_start fmt (m_start m), str_stop fmt (m_stop m),
      m_bc m, str_int (ndupes m), str_strand fmt (m_strand m)]"

text \<open>\<open>merged.to_csv(..., sep = "\t", index = False, header = False)\<close>: the text written.\<close>

definition to_csv :: "('c, 'a, 'b, 'd) cell_format \<Rightarrow> ('c, 'a, 'b, 'd) merged_row list \<Rightarrow> string" where
  "to_csv fmt rows =
     concat (map (\<lambda>m. join_tab (map csv_field (row_fields fmt m)) @ [LF]) rows)"

section \<open>The script\<close>

text \<open>The table \<open>merged\<close> of a run, or the exception that ends it.\<close>

definition merged_of ::
  "((string \<times> string) list
      \<Rightarrow> ('c::linorder, 'a::linorder, 'b::linorder, 'n, 's, 'd::linorder) alignment list \<Rightarrow> bool)
     \<Rightarrow> seq_record list \<Rightarrow> ('c, 'a, 'b, 'n, 's, 'd) alignment list
     \<Rightarrow> error + ('c, 'a, 'b, 'd) merged_row list" where
  "merged_of refuses fasta alns =
     (case bcalib_of refuses (fasta_tuple_generator fasta) alns of
        Inl e \<Rightarrow> Inl e
      | Inr bcalib \<Rightarrow> Inr (merged (bcalib_cleaned bcalib)))"

text \<open>The text a run writes, or the exception that ends it.\<close>

definition merge_pcr_duplicates ::
  "('c, 'a, 'b, 'd) cell_format
     \<Rightarrow> ((string \<times> string) list
      \<Rightarrow> ('c::linorder, 'a::linorder, 'b::linorder, 'n, 's, 'd::linorder) alignment list \<Rightarrow> bool)
     \<Rightarrow> seq_record list \<Rightarrow> ('c, 'a, 'b, 'n, 's, 'd) alignment list \<Rightarrow> error + string" where
  "merge_pcr_duplicates fmt refuses fasta alns =
     (case merged_of refuses fasta alns of
        Inl e \<Rightarrow> Inl e
      | Inr rows \<Rightarrow> Inr (to_csv fmt rows))"

section \<open>Re-expansion and example tables\<close>

text \<open>The re-expansion of a row of \<open>merged\<close>, following the specification's words (it is
  not part of the script): \<open>ndupes\<close> identical joined rows with the key of the row. The
  columns that \<open>merged\<close> has dropped, \<open>score\<close> and \<open>read_id\<close>, are filled with given values.\<close>

definition reexpand ::
  "'s \<Rightarrow> 'n id_cell \<Rightarrow> ('c, 'a, 'b, 'd) merged_row \<Rightarrow> ('c, 'a, 'b, 'n, 's, 'd) joined list" where
  "reexpand sc rid m =
     replicate (nat (ndupes m))
       \<lparr>chrom = Some (m_chrom m), start = Some (m_start m), stop = Some (m_stop m),
        read_id = rid, score = sc, strand = Some (m_strand m), bc = m_bc m\<rparr>"

text \<open>A row of a table with the types of the bed6 format and no missing cell.\<close>

definition bed6_row ::
  "string \<Rightarrow> int \<Rightarrow> int \<Rightarrow> string \<Rightarrow> string
     \<Rightarrow> (string, int, int, unit, unit, string) alignment" where
  "bed6_row c s e rid sd =
     \<lparr>chrom = Some c, start = Some s, stop = Some e, read_id = IdText rid, score = (),
      strand = Some sd\<rparr>"

definition bed6_joined ::
  "string \<Rightarrow> int \<Rightarrow> int \<Rightarrow> string \<Rightarrow> string \<Rightarrow> string
     \<Rightarrow> (string, int, int, unit, unit, string) joined" where
  "bed6_joined c s e rid sd b =
     \<lparr>chrom = Some c, start = Some s, stop = Some e, read_id = IdText rid, score = (),
      strand = Some sd, bc = b\<rparr>"

text \<open>Scenario A of the specification: three alignments with the same interval, strand and
  barcode, and the row they are merged into.\<close>

definition scenario_A :: "(string, int, int, unit, unit, string) joined list" where
  "scenario_A =
     [bed6_joined ''chr1'' 100 110 ''read1'' ''+'' ''AAGG'',
      bed6_joined ''chr1'' 100 110 ''read2'' ''+'' ''AAGG'',
      bed6_joined ''chr1'' 100 110 ''read3'' ''+'' ''AAGG'']"

definition scenario_A_merged :: "(string, int, int, string) merged_row" where
  "scenario_A_merged =
     \<lparr>m_chrom = ''chr1'', m_start = 100, m_stop = 110, m_strand = ''+'', m_bc = ''AAGG'', ndupes = 3\<rparr>"

text \<open>Scenario B: a barcode with an uncalled base, beside one with a lowercase \<open>n\<close>.\<close>

definition scenario_B_fasta :: "seq_record list" where
  "scenario_B_fasta =
     [\<lparr>rec_id = ''read1'', rec_seq = ''AANG''\<rparr>, \<lparr>rec_id = ''read2'', rec_seq = ''aang''\<rparr>]"

definition scenario_B_alns :: "(string, int, int, unit, unit, string) alignment list" where
  "scenario_B_alns =
     [bed6_row ''chr1'' 100 110 ''read1'' ''+'', bed6_row ''chr1'' 100 110 ''read2'' ''+'']"

definition scenario_B_merged :: "(string, int, int, string) merged_row" where
  "scenario_B_merged =
     \<lparr>m_chrom = ''chr1'', m_start = 100, m_stop = 110, m_strand = ''+'', m_bc = ''aang'', ndupes = 1\<rparr>"

text \<open>A table with a missing \<open>chrom\<close> cell, as a \<open>chrom\<close> field spelled \<open>NA\<close> gives, and the
  row it is merged into.\<close>

definition missing_chrom :: "(string, int, int, unit, unit, string) joined list" where
  "missing_chrom =
     [(bed6_joined [] 100 110 ''read1'' ''+'' ''AAGG'')\<lparr>chrom := None\<rparr>,
      bed6_joined ''chr1'' 100 110 ''read2'' ''+'' ''AAGG'']"

text \<open>A table whose \<open>chrom\<close> column is made of digits only, and so is a column of numbers.\<close>

definition digit_chrom :: "(int, int, int, unit, unit, string) joined list" where
  "digit_chrom =
     [\<lparr>chrom = Some 10, start = Some 100, stop = Some 110, read_id = IdText ''read1'',
       score = (), strand = Some ''+'', bc = ''AAGG''\<rparr>,
      \<lparr>chrom = Some 9, start = Some 100, stop = Some 110, read_id = IdText ''read2'',
       score = (), strand = Some ''+'', bc = ''AAGG''\<rparr>]"

text \<open>A row of \<open>merged\<close> whose \<open>chrom\<close> has a tab in it.\<close>

definition tab_chrom :: "(string, int, int, string) merged_row" where
  "tab_chrom =
     \<lparr>m_chrom = [CHR ''a'', TAB, CHR ''b''], m_start = 100, m_stop = 110, m_strand = ''+'',
      m_bc = ''AAGG'', ndupes = 1\<rparr>"

section \<open>Reading the written text\<close>

text \<open>Not part of the script: the text is cut at a separator the way \<open>str.split(sep)\<close>
  does, to state what the written lines hold. The lines of a text are the pieces that end
  with the line terminator.\<close>

fun split_on :: "char \<Rightarrow> string \<Rightarrow> string list" where
  "split_on sep [] = [[]]"
| "split_on sep (c # cs) =
     (if c = sep then [] # split_on sep cs
      else (c # hd (split_on sep cs)) # tl (split_on sep cs))"

definition lines_of :: "string \<Rightarrow> string list" where
  "lines_of text = butlast (split_on LF text)"

definition plain :: "string \<Rightarrow> bool" where
  "plain s = (\<not> list_ex special s)"

text \<open>A row none of whose written fields has a tab, quote or newline character: the writer
  leaves such fields as they are.\<close>

definition plain_row :: "('c, 'a, 'b, 'd) cell_format \<Rightarrow> ('c, 'a, 'b, 'd) merged_row \<Rightarrow> bool" where
  "plain_row fmt m =
     (plain (str_chrom fmt (m_chrom m)) \<and> plain (str_start fmt (m_start m))
      \<and> plain (str_stop fmt (m_stop m)) \<and> plain (m_bc m)
      \<and> plain (str_strand fmt (m_strand m)))"

section \<open>Loading the alignments\<close>









section \<open>Properties of the grouping\<close>

lemma map_filter_append:
  "List.map_filter f (xs @ ys) = List.map_filter f xs @ List.map_filter f ys"
  by (simp add: List.map_filter_def)

lemma map_filter_concat:
  "List.map_filter f (concat xss) = concat (map (List.map_filter f) xss)"
  by (induction xss) (simp_all add: map_filter_append List.map_filter_simps)

lemma set_keys:
  "set (List.map_filter group_key rows) = {k. \<exists>r\<in>set rows. group_key r = Some k}"
  by (induction rows) (auto simp: List.map_filter_simps split: option.splits)

lemma length_keys:
  "length (List.map_filter group_key rows) = length (filter (\<lambda>r. group_key r \<noteq> None) rows)"
  by (simp add: List.map_filter_def)

lemma length_filter_count_list:
  "length (filter (\<lambda>r. group_key r = Some k) rows)
     = count_list (List.map_filter group_key rows) k"
  by (induction rows) (auto simp: List.map_filter_simps split: option.splits)

lemma length_filter_group_key:
  "length (filter (\<lambda>r. group_key r = Some k) rows)
     = count (mset (List.map_filter group_key rows)) k"
  by (simp only: length_filter_count_list count_mset)

text \<open>The grouping depends on the rows only through the multiset of their keys.\<close>

lemma groupby_size_cong:
  assumes "mset (List.map_filter group_key rows) = mset (List.map_filter group_key rows')"
  shows "groupby_size rows = groupby_size rows'"
proof -
  from assms
  have "set (List.map_filter group_key rows) = set (List.map_filter group_key rows')"
    by (rule mset_eq_setD)
  then have "sort (remdups (List.map_filter group_key rows))
      = sort (remdups (List.map_filter group_key rows'))"
    by (simp only: sorted_list_of_set_sort_remdups [symmetric])
  with assms show ?thesis
    by (simp add: groupby_size_def length_filter_group_key)
qed

lemma merged_keys:
  "map merged_key (merged rows) = sort (remdups (List.map_filter group_key rows))"
  by (simp add: merged_def groupby_size_def merged_key_def comp_def case_prod_unfold)

lemma merged_ndupes:
  "map ndupes (merged rows) =
     map (\<lambda>k. int (length (filter (\<lambda>r. group_key r = Some k) rows)))
         (sort (remdups (List.map_filter group_key rows)))"
  by (simp add: merged_def groupby_size_def comp_def case_prod_unfold)

lemma merged_row_ndupes:
  assumes "m \<in> set (merged rows)"
  shows "ndupes m = int (length (filter (\<lambda>r. group_key r = Some (merged_key m)) rows))"
  using assms
  by (auto simp: merged_def groupby_size_def merged_key_def)

lemma merged_key_in:
  assumes "m \<in> set (merged rows)"
  shows "\<exists>r\<in>set rows. group_key r = Some (merged_key m)"
proof -
  from assms have "merged_key m \<in> set (map merged_key (merged rows))" by simp
  then show ?thesis by (simp add: merged_keys set_keys)
qed

lemma sum_group_sizes:
  "(\<Sum>k\<leftarrow>sort (remdups (List.map_filter group_key rows)).
        length (filter (\<lambda>r. group_key r = Some k) rows))
     = length (filter (\<lambda>r. group_key r \<noteq> None) rows)"
proof -
  let ?xs = "List.map_filter group_key rows"
  have "(\<Sum>k\<leftarrow>sort (remdups ?xs). length (filter (\<lambda>r. group_key r = Some k) rows))
      = (\<Sum>k\<leftarrow>sort (remdups ?xs). count_list ?xs k)"
    by (simp only: length_filter_count_list)
  also have "\<dots> = sum (count_list ?xs) (set (sort (remdups ?xs)))"
    by (rule sum_list_distinct_conv_sum_set) simp
  also have "\<dots> = length ?xs"
    by (simp add: sum_count_set)
  finally show ?thesis by (simp only: length_keys)
qed

lemma sum_list_of_nat:
  "(\<Sum>k\<leftarrow>ks. int (f k)) = int (\<Sum>k\<leftarrow>ks. f k)"
  by (induction ks) simp_all

lemma merged_sum:
  "sum_list (map ndupes (merged rows)) = int (length (filter (\<lambda>r. group_key r \<noteq> None) rows))"
proof -
  have "sum_list (map ndupes (merged rows))
      = int (\<Sum>k\<leftarrow>sort (remdups (List.map_filter group_key rows)).
               length (filter (\<lambda>r. group_key r = Some k) rows))"
    by (simp add: merged_ndupes comp_def sum_list_of_nat)
  then show ?thesis by (simp only: sum_group_sizes)
qed

text \<open>The order of the keys, written out: the columns from left to right, each in the
  order of its type.\<close>

lemma group_key_less:
  "((c, s, e, sd, b) < ((c', s', e', sd', b') :: ('c::linorder, 'a::linorder, 'b::linorder, 'd::linorder) group_key)) =
     (c < c' \<or> c = c' \<and> (s < s' \<or> s = s' \<and> (e < e' \<or> e = e' \<and> (sd < sd' \<or> sd = sd' \<and> b < b'))))"
  by (auto simp: less_prod_def)

text \<open>
  \<^bold>\<open>C1\<close>, as the script has it. The grouping leaves out the rows with a missing value in
  a key column. The rows of \<open>merged\<close> are the classes of the other input rows under
  equality of the key \<open>(chrom, start, stop, strand, bc)\<close>: every key of such a row occurs
  exactly once in \<open>merged\<close> and no other key does; \<open>ndupes\<close> of a row is the number of
  input rows (counted by position) that have its key; and the values of \<open>ndupes\<close> add up
  to the number of input rows without a missing key cell, which is the number of input
  rows when no key cell is missing.
\<close>

theorem merged_partition:
  "distinct (map merged_key (merged rows))
   \<and> set (map merged_key (merged rows)) = {k. \<exists>r\<in>set rows. group_key r = Some k}
   \<and> (\<forall>m\<in>set (merged rows).
         ndupes m = int (card {i. i < length rows \<and> group_key (rows ! i) = Some (merged_key m)}))
   \<and> sum_list (map ndupes (merged rows))
       = int (length (filter (\<lambda>r. group_key r \<noteq> None) rows))
   \<and> ((\<forall>r\<in>set rows. group_key r \<noteq> None) \<longrightarrow>
         sum_list (map ndupes (merged rows)) = int (length rows))"
proof (intro conjI ballI impI)
  show "distinct (map merged_key (merged rows))"
    by (simp add: merged_keys)
  show "set (map merged_key (merged rows)) = {k. \<exists>r\<in>set rows. group_key r = Some k}"
    by (simp only: merged_keys set_sort set_remdups set_keys)
  show "sum_list (map ndupes (merged rows))
       = int (length (filter (\<lambda>r. group_key r \<noteq> None) rows))"
    by (rule merged_sum)
next
  fix m assume "m \<in> set (merged rows)"
  then show "ndupes m
      = int (card {i. i < length rows \<and> group_key (rows ! i) = Some (merged_key m)})"
    by (simp only: merged_row_ndupes length_filter_conv_card)
next
  assume "\<forall>r\<in>set rows. group_key r \<noteq> None"
  then have "filter (\<lambda>r. group_key r \<noteq> None) rows = rows"
    by (simp add: filter_id_conv)
  then show "sum_list (map ndupes (merged rows)) = int (length rows)"
    by (simp add: merged_sum)
qed

lemma group_key_bed6_joined [simp]:
  "group_key (bed6_joined c s e rid sd b) = Some (c, s, e, sd, b)"
  by (simp add: group_key_def bed6_joined_def)

theorem merged_partition_witness:
  "merged scenario_A = [scenario_A_merged]
   \<and> ndupes scenario_A_merged
       = int (card {i. i < length scenario_A
                       \<and> group_key (scenario_A ! i) = Some (merged_key scenario_A_merged)})
   \<and> sum_list (map ndupes (merged scenario_A)) = int (length scenario_A)"
proof -
  have e: "merged scenario_A = [scenario_A_merged]"
    by (simp add: scenario_A_def scenario_A_merged_def merged_def groupby_size_def
        List.map_filter_simps)
  have all: "\<forall>r\<in>set scenario_A. group_key r \<noteq> None"
    by (simp add: scenario_A_def)
  have "\<forall>m\<in>set (merged scenario_A).
          ndupes m = int (card {i. i < length scenario_A
                                  \<and> group_key (scenario_A ! i) = Some (merged_key m)})"
    using merged_partition [of scenario_A] by blast
  then have "ndupes scenario_A_merged
       = int (card {i. i < length scenario_A
                       \<and> group_key (scenario_A ! i) = Some (merged_key scenario_A_merged)})"
    unfolding e by simp
  moreover from all merged_partition [of scenario_A]
  have "sum_list (map ndupes (merged scenario_A)) = int (length scenario_A)"
    by blast
  ultimately show ?thesis using e by blast
qed

text \<open>The claim as stated, at a table of two rows, the first with a missing \<open>chrom\<close>: one
  row is merged, and the values of \<open>ndupes\<close> add up to 1, not to 2.\<close>

theorem merged_partition_counterexample:
  "length missing_chrom = 2 \<and> sum_list (map ndupes (merged missing_chrom)) = 1"
  by (simp add: missing_chrom_def merged_def groupby_size_def List.map_filter_simps
      group_key_def bed6_joined_def)

text \<open>
  \<^bold>\<open>C2\<close>, as the script has it. The keys of the rows of \<open>merged\<close> are strictly ascending
  in the order of \<open>group_key_less\<close>, so no two rows have the same key; in that order
  \<open>chrom\<close>, \<open>start\<close>, \<open>stop\<close> and \<open>strand\<close> are each compared as the type the library has
  given the column (as strings when it is a column of text, by value when it is a column
  of numbers), and \<open>bc\<close> as a string.
\<close>

theorem merged_strictly_sorted:
  "sorted_wrt (<) (map merged_key (merged rows)) \<and> distinct (map merged_key (merged rows))"
  by (simp add: merged_keys strict_sorted_iff)

text \<open>The claim as stated, at a table whose \<open>chrom\<close> cells are \<open>10\<close> and \<open>9\<close>: the column is
  a column of numbers, the rows are written with \<open>9\<close> before \<open>10\<close>, and as strings \<open>10\<close>
  comes before \<open>9\<close>.\<close>

theorem merged_strictly_sorted_counterexample:
  "map (\<lambda>m. str_int (m_chrom m)) (merged digit_chrom) = [''9'', ''10'']
   \<and> (''10'' :: string) < ''9''"
  by (simp add: digit_chrom_def merged_def groupby_size_def List.map_filter_simps
      group_key_def str_int_def digits.simps)

text \<open>
  \<^bold>\<open>C7.\<close> Two tables with the same rows in a different order are merged into the same table,
  row for row.
\<close>

theorem merged_perm:
  "mset rows = mset rows' \<Longrightarrow> merged rows = merged rows'"
proof -
  assume "mset rows = mset rows'"
  then have "mset (filter (\<lambda>r. group_key r \<noteq> None) rows)
      = mset (filter (\<lambda>r. group_key r \<noteq> None) rows')"
    by simp
  then have "mset (map (the \<circ> group_key) (filter (\<lambda>r. group_key r \<noteq> None) rows))
      = mset (map (the \<circ> group_key) (filter (\<lambda>r. group_key r \<noteq> None) rows'))"
    by simp
  then have "mset (List.map_filter group_key rows) = mset (List.map_filter group_key rows')"
    by (simp only: List.map_filter_def)
  then have "groupby_size rows = groupby_size rows'" by (rule groupby_size_cong)
  then show ?thesis by (simp add: merged_def)
qed

theorem merged_perm_witness:
  "mset (rev scenario_A) = mset scenario_A \<and> merged (rev scenario_A) = merged scenario_A"
proof -
  have h: "mset (rev scenario_A) = mset scenario_A" by simp
  from h merged_perm [OF h] show ?thesis by (rule conjI)
qed

subsection \<open>Re-expansion\<close>

lemma count_concat_replicate:
  "count_list (concat (map (\<lambda>k. replicate (c k) k) ks)) a
     = (\<Sum>k\<leftarrow>ks. if k = a then c k else 0)"
  by (induction ks) (auto simp flip: count_mset)

lemma sum_list_single:
  "distinct ks \<Longrightarrow> (\<Sum>k\<leftarrow>ks. if k = a then c k else 0) = (if a \<in> set ks then c a else (0::nat))"
  by (induction ks) auto

lemma mset_concat_replicate_counts:
  "mset (concat (map (\<lambda>k. replicate (count_list xs k) k) (sort (remdups xs)))) = mset xs"
  by (rule multiset_eqI)
     (simp add: count_concat_replicate sum_list_single count_mset count_list_0_iff)

lemma group_key_reexpand:
  "List.map_filter group_key (reexpand sc rid m) = replicate (nat (ndupes m)) (merged_key m)"
  by (simp add: reexpand_def group_key_def merged_key_def List.map_filter_def)

lemma keys_reexpand_merged:
  "List.map_filter group_key (concat (map (reexpand sc rid) (merged rows)))
     = concat (map (\<lambda>k. replicate (count_list (List.map_filter group_key rows) k) k)
                   (sort (remdups (List.map_filter group_key rows))))"
  by (simp add: map_filter_concat comp_def group_key_reexpand)
     (simp add: merged_def groupby_size_def comp_def merged_key_def length_filter_count_list
        case_prod_unfold)

text \<open>
  \<^bold>\<open>C8.\<close> Expanding every row of \<open>merged\<close> into \<open>ndupes\<close> identical joined rows (whatever the
  score and read identifier they are given) and merging the expanded table gives \<open>merged\<close>
  again.
\<close>

theorem merged_reexpand:
  "merged (concat (map (reexpand sc rid) (merged rows))) = merged rows"
proof -
  have "mset (List.map_filter group_key (concat (map (reexpand sc rid) (merged rows))))
      = mset (List.map_filter group_key rows)"
    by (simp only: keys_reexpand_merged mset_concat_replicate_counts)
  then have "groupby_size (concat (map (reexpand sc rid) (merged rows))) = groupby_size rows"
    by (rule groupby_size_cong)
  then show ?thesis by (simp add: merged_def)
qed

section \<open>Properties of the merge\<close>

lemma merge_inner_Nil [simp]: "merge_inner [] alns = []"
  by (simp add: merge_inner_def)

lemma merge_inner_Cons:
  "merge_inner ((rid, b) # bcs) alns =
     map (\<lambda>a. \<lparr>chrom = chrom a, start = start a, stop = stop a, read_id = read_id a,
                 score = score a, strand = strand a, bc = b\<rparr>)
           (filter (\<lambda>a. read_id a = IdText rid) alns) @ merge_inner bcs alns"
  by (simp add: merge_inner_def)

text \<open>A merged table with a row comes from an alignment whose identifier is a text.\<close>

lemma merge_inner_text:
  "merge_inner bcs alns \<noteq> [] \<Longrightarrow> list_ex is_text (map read_id alns)"
proof (induction bcs)
  case Nil
  then show ?case by simp
next
  case (Cons e bcs)
  obtain rid b where e: "e = (rid, b)" by (cases e)
  show ?case
  proof (cases "filter (\<lambda>a. read_id a = IdText rid) alns = []")
    case True
    with Cons e show ?thesis by (simp add: merge_inner_Cons)
  next
    case False
    then obtain a where "a \<in> set alns" "read_id a = IdText rid"
      by (auto simp: filter_empty_conv)
    then show ?thesis by (force simp: list_ex_iff)
  qed
qed

lemma bcalib_of_merged:
  "merge_inner bcs alns \<noteq> [] \<Longrightarrow> bcalib_of refuses bcs alns = Inr (merge_inner bcs alns)"
  by (simp add: bcalib_of_def key_refused_def merge_inner_text Let_def)

text \<open>
  \<^bold>\<open>C3\<close>, as the script has it. The script's exception is raised exactly when the merge
  is carried out and the merged table is empty; the alignment table is not looked at, and
  with no alignment at all the exception is raised too. When the merged table is not
  empty it is returned and nothing is raised. When the \<open>read_id\<close> column of the alignments
  holds no text, the library may refuse the merge with an exception of its own, before
  the check.
\<close>

theorem bcalib_of_raises:
  "(bcalib_of refuses bcs alns = Inl NoOverlapError)
     = (\<not> key_refused refuses bcs alns \<and> merge_inner bcs alns = [])
   \<and> bcalib_of refuses bcs alns =
       (if merge_inner bcs alns = []
        then (if key_refused refuses bcs alns then Inl ValueError else Inl NoOverlapError)
        else Inr (merge_inner bcs alns))"
proof -
  have "bcalib_of refuses bcs alns =
       (if merge_inner bcs alns = []
        then (if key_refused refuses bcs alns then Inl ValueError else Inl NoOverlapError)
        else Inr (merge_inner bcs alns))"
    by (simp add: bcalib_of_merged) (simp add: bcalib_of_def)
  then show ?thesis by simp
qed

text \<open>The claim as stated, at a library of one entry and no alignment, where the library
  does not refuse the merge: the exception is raised although the alignment table is
  empty.\<close>

theorem bcalib_of_counterexample:
  "\<not> ((bcalib_of (\<lambda>bcs alns. False) [(''read1'', ''AAGG'')]
          ([] :: (string, int, int, unit, unit, string) alignment list) = Inl NoOverlapError)
       = (merge_inner [(''read1'', ''AAGG'')]
            ([] :: (string, int, int, unit, unit, string) alignment list) = []
          \<and> ([] :: (string, int, int, unit, unit, string) alignment list) \<noteq> []))"
  by (simp add: bcalib_of_def key_refused_def merge_inner_def)

section \<open>Properties of the filter\<close>

lemma str_contains_N: "str_contains ''N'' s \<longleftrightarrow> CHR ''N'' \<in> set s"
  by (induction s) auto

lemma map_snd_filter_indexed:
  "map snd (filter (\<lambda>(i, r). Q r) (zip [0 ..< length xs] xs)) = filter Q xs"
proof -
  have "map snd (filter (\<lambda>(i, r). Q r) zs) = filter Q (map snd zs)" for zs :: "(nat \<times> 'a) list"
    by (induction zs) auto
  then show ?thesis by simp
qed

text \<open>A label is among the dropped ones exactly when its own row matches: labels are not
  shared between rows.\<close>

lemma label_dropped_iff:
  assumes "(i, r) \<in> set (zip [0 ..< length xs] xs)"
  shows "i \<in> set (map fst (filter (\<lambda>(i, r). P r) (zip [0 ..< length xs] xs))) \<longleftrightarrow> P r"
proof
  assume "i \<in> set (map fst (filter (\<lambda>(i, r). P r) (zip [0 ..< length xs] xs)))"
  then obtain r' where r': "(i, r') \<in> set (zip [0 ..< length xs] xs)" "P r'"
    by auto
  from assms r'(1) have "r' = r"
    by (auto simp: set_zip)
  with r'(2) show "P r" by simp
next
  assume "P r"
  with assms show "i \<in> set (map fst (filter (\<lambda>(i, r). P r) (zip [0 ..< length xs] xs)))"
    by force
qed

lemma bcalib_cleaned_filter:
  "bcalib_cleaned bcalib = filter (\<lambda>r. CHR ''N'' \<notin> set (bc r)) bcalib"
proof -
  let ?ix = "zip [0 ..< length bcalib] bcalib"
  let ?labels = "map fst (filter (\<lambda>(i, r). str_contains ''N'' (bc r)) ?ix)"
  have "filter (\<lambda>(i, r). i \<notin> set ?labels) ?ix
      = filter (\<lambda>(i, r). CHR ''N'' \<notin> set (bc r)) ?ix"
  proof (rule filter_cong [OF refl])
    fix p assume p: "p \<in> set ?ix"
    obtain i r where ir: "p = (i, r)" by (cases p)
    with p have "(i, r) \<in> set ?ix" by simp
    then have "i \<in> set ?labels \<longleftrightarrow> str_contains ''N'' (bc r)"
      by (rule label_dropped_iff [where P = "\<lambda>r. str_contains ''N'' (bc r)"])
    with ir show "(case p of (i, r) \<Rightarrow> i \<notin> set ?labels)
        = (case p of (i, r) \<Rightarrow> CHR ''N'' \<notin> set (bc r))"
      by (simp add: str_contains_N)
  qed
  then show ?thesis
    by (simp only: bcalib_cleaned_def Let_def map_snd_filter_indexed)
qed

lemma group_key_bc: "group_key r = Some k \<Longrightarrow> snd (snd (snd (snd k))) = bc r"
  by (auto simp: group_key_def split: option.splits)

text \<open>
  \<^bold>\<open>C4.\<close> The filter keeps, in order, exactly the rows whose barcode has no character \<open>N\<close>
  (the uppercase letter: any other character, a lowercase \<open>n\<close> too, is not a match), and
  so no row of \<open>merged\<close> that a run produces has an \<open>N\<close> in its barcode.
\<close>

theorem quality_filter:
  "bcalib_cleaned bcalib = filter (\<lambda>r. CHR ''N'' \<notin> set (bc r)) bcalib
   \<and> (merged_of refuses fasta alns = Inr out \<longrightarrow> (\<forall>m\<in>set out. CHR ''N'' \<notin> set (m_bc m)))"
proof (intro conjI impI ballI)
  show "bcalib_cleaned bcalib = filter (\<lambda>r. CHR ''N'' \<notin> set (bc r)) bcalib"
    by (rule bcalib_cleaned_filter)
next
  fix m
  assume out: "merged_of refuses fasta alns = Inr out" and m: "m \<in> set out"
  let ?bcalib = "merge_inner (fasta_tuple_generator fasta) alns"
  from out have "out = merged (bcalib_cleaned ?bcalib)"
    by (auto simp: merged_of_def bcalib_of_def Let_def split: if_splits)
  with m obtain r where r: "r \<in> set (bcalib_cleaned ?bcalib)" "group_key r = Some (merged_key m)"
    using merged_key_in by blast
  from group_key_bc [OF r(2)] have "m_bc m = bc r"
    by (simp add: merged_key_def)
  with r(1) show "CHR ''N'' \<notin> set (m_bc m)"
    by (simp add: bcalib_cleaned_filter)
qed

theorem quality_filter_witness:
  "merged_of (\<lambda>bcs alns. False) scenario_B_fasta scenario_B_alns = Inr [scenario_B_merged]
   \<and> CHR ''N'' \<notin> set (m_bc scenario_B_merged)"
proof -
  have e: "merged_of (\<lambda>bcs alns. False) scenario_B_fasta scenario_B_alns = Inr [scenario_B_merged]"
    by (simp add: merged_of_def bcalib_of_def key_refused_def fasta_tuple_generator_def
        merge_inner_def scenario_B_fasta_def scenario_B_alns_def scenario_B_merged_def
        bed6_row_def bcalib_cleaned_filter merged_def groupby_size_def group_key_def
        List.map_filter_simps)
  from quality_filter [of "[] :: (string, int, int, unit, unit, string) joined list"
      "\<lambda>bcs alns. False" scenario_B_fasta scenario_B_alns "[scenario_B_merged]"] e
  have "\<forall>m\<in>set [scenario_B_merged]. CHR ''N'' \<notin> set (m_bc m)" by blast
  with e show ?thesis by simp
qed

text \<open>
  \<^bold>\<open>C10.\<close> When the merged table is not empty and every barcode in it has an \<open>N\<close>, the run
  raises nothing: \<open>merged\<close> is the empty table and the text written is empty.
\<close>

theorem all_uncalled:
  assumes "merge_inner (fasta_tuple_generator fasta) alns \<noteq> []"
    and "\<forall>j\<in>set (merge_inner (fasta_tuple_generator fasta) alns). CHR ''N'' \<in> set (bc j)"
  shows "merged_of refuses fasta alns = Inr []
    \<and> merge_pcr_duplicates fmt refuses fasta alns = Inr []"
proof -
  from assms(2) have "bcalib_cleaned (merge_inner (fasta_tuple_generator fasta) alns) = []"
    by (simp add: bcalib_cleaned_filter filter_empty_conv)
  with assms(1) have "merged_of refuses fasta alns = Inr []"
    by (simp add: merged_of_def bcalib_of_merged merged_def groupby_size_def
        List.map_filter_simps)
  then show ?thesis
    by (simp add: merge_pcr_duplicates_def to_csv_def)
qed

theorem all_uncalled_witness:
  "map bc (merge_inner (fasta_tuple_generator [\<lparr>rec_id = ''read1'', rec_seq = ''AANG''\<rparr>])
      [bed6_row ''chr1'' 100 110 ''read1'' ''+'']) = [''AANG'']
   \<and> merged_of (\<lambda>bcs alns. False) [\<lparr>rec_id = ''read1'', rec_seq = ''AANG''\<rparr>]
      [bed6_row ''chr1'' 100 110 ''read1'' ''+''] = Inr []
   \<and> merge_pcr_duplicates bed6_format (\<lambda>bcs alns. False)
      [\<lparr>rec_id = ''read1'', rec_seq = ''AANG''\<rparr>]
      [bed6_row ''chr1'' 100 110 ''read1'' ''+''] = Inr []"
  using all_uncalled [of "[\<lparr>rec_id = ''read1'', rec_seq = ''AANG''\<rparr>]"
      "[bed6_row ''chr1'' 100 110 ''read1'' ''+'']" "\<lambda>bcs alns. False" bed6_format]
  by (simp add: merge_inner_def fasta_tuple_generator_def bed6_row_def)

section \<open>Repeated identifiers in the library\<close>

lemma mset_concat_map_append:
  "mset (concat (map (\<lambda>a. g a @ h a) xs)) = mset (concat (map g xs)) + mset (concat (map h xs))"
  by (induction xs) simp_all

lemma merge_inner_per_alignment:
  "mset (merge_inner bcs alns) = mset (concat (map (\<lambda>a. merge_inner bcs [a]) alns))"
proof (induction bcs)
  case Nil
  show ?case by (induction alns) simp_all
next
  case (Cons e bcs)
  obtain rid b where e: "e = (rid, b)" by (cases e)
  let ?j = "\<lambda>a. \<lparr>chrom = chrom a, start = start a, stop = stop a, read_id = read_id a,
                 score = score a, strand = strand a, bc = b\<rparr>"
  have "map ?j (filter (\<lambda>a. read_id a = IdText rid) alns)
      = concat (map (\<lambda>a. map ?j (filter (\<lambda>a. read_id a = IdText rid) [a])) alns)"
    by (induction alns) simp_all
  then show ?case
    by (simp only: e merge_inner_Cons mset_concat_map_append mset_append Cons.IH)
qed

lemma merge_inner_barcodes:
  "map bc (merge_inner bcs [a]) = map snd (filter (\<lambda>e. IdText (fst e) = read_id a) bcs)"
  by (induction bcs) (auto simp: merge_inner_Cons)

text \<open>
  \<^bold>\<open>C6\<close>, as the script has it. The library is loaded into a table that keeps every
  entry, and the merge pairs an alignment with every entry that bears its read identifier:
  the merged table is, up to the order of its rows, made of the rows each alignment gives
  on its own, and these carry the barcodes of all library entries with the alignment's
  identifier, in library order. No entry wins over another.
\<close>

theorem library_duplicates:
  "mset (merge_inner bcs alns) = mset (concat (map (\<lambda>a. merge_inner bcs [a]) alns))
   \<and> map bc (merge_inner bcs [a]) = map snd (filter (\<lambda>e. IdText (fst e) = read_id a) bcs)"
  by (simp only: merge_inner_per_alignment [symmetric] merge_inner_barcodes)

text \<open>The claim as stated, at a library with two entries for \<open>read1\<close>: the one alignment of
  \<open>read1\<close> is joined with both barcodes, not only with the last.\<close>

theorem library_duplicates_counterexample:
  "map bc (merge_inner
      (fasta_tuple_generator
         [\<lparr>rec_id = ''read1'', rec_seq = ''AAGG''\<rparr>, \<lparr>rec_id = ''read1'', rec_seq = ''CCTT''\<rparr>])
      [bed6_row ''chr1'' 100 110 ''read1'' ''+''])
   = [''AAGG'', ''CCTT'']"
  by (simp add: merge_inner_def fasta_tuple_generator_def bed6_row_def)

section \<open>Properties of the writer\<close>

lemma split_on_not_Nil [simp]: "split_on sep s \<noteq> []"
  by (induction s) auto

lemma split_on_step:
  "split_on sep (c # cs) =
     (case split_on sep cs of
        [] \<Rightarrow> []
      | p # ps \<Rightarrow> if c = sep then [] # p # ps else (c # p) # ps)"
  by (cases "split_on sep cs") simp_all

lemma split_on_absent: "sep \<notin> set s \<Longrightarrow> split_on sep s = [s]"
  by (induction s) auto

lemma split_on_append:
  "sep \<notin> set s \<Longrightarrow> split_on sep (s @ sep # t) = s # split_on sep t"
  by (induction s) auto

lemma split_on_join_tab:
  "fs \<noteq> [] \<Longrightarrow> \<forall>f\<in>set fs. TAB \<notin> set f \<Longrightarrow> split_on TAB (join_tab fs) = fs"
proof (induction fs rule: join_tab.induct)
  case 1
  then show ?case by simp
next
  case (2 f)
  then show ?case by (simp add: split_on_absent)
next
  case (3 f g fs)
  then show ?case by (simp add: split_on_append)
qed

lemma set_join_tab: "set (join_tab fs) \<subseteq> insert TAB (\<Union> (set ` set fs))"
  by (induction fs rule: join_tab.induct) auto

lemma digit_char: "n < 10 \<Longrightarrow> ''0123456789'' ! n \<in> set ''0123456789''"
  by (rule nth_mem) simp

lemma set_digits: "set (digits n) \<subseteq> set ''0123456789''"
proof (induction n rule: digits.induct)
  case (1 n)
  show ?case
  proof (cases "n < 10")
    case True
    with digit_char [of n] show ?thesis
      by (subst digits.simps) simp
  next
    case False
    have "n mod 10 < 10" by simp
    with False 1 digit_char [of "n mod 10"] show ?thesis
      by (subst digits.simps) simp
  qed
qed

lemma digit_not_special: "c \<in> set ''0123456789'' \<Longrightarrow> \<not> special c"
  by (auto simp: special_def)

lemma plain_digits: "plain (digits n)"
  unfolding plain_def list_ex_iff
  using set_digits [of n] digit_not_special by blast

lemma plain_str_int: "plain (str_int i)"
proof (cases "i < 0")
  case True
  have "\<not> special (CHR ''-'')" by (simp add: special_def)
  with True plain_digits [of "nat (- i)"] show ?thesis
    by (simp add: str_int_def plain_def)
next
  case False
  with plain_digits [of "nat i"] show ?thesis
    by (simp add: str_int_def)
qed

lemma csv_field_plain: "plain s \<Longrightarrow> csv_field s = s"
  by (simp add: csv_field_def plain_def)

lemma plain_no_special: "plain s \<Longrightarrow> TAB \<notin> set s \<and> LF \<notin> set s \<and> QUOTE \<notin> set s"
  by (auto simp: plain_def list_ex_iff special_def)

lemma plain_row_fields: "plain_row fmt m \<Longrightarrow> f \<in> set (row_fields fmt m) \<Longrightarrow> plain f"
  by (auto simp: plain_row_def row_fields_def plain_str_int)

lemma row_line_plain:
  assumes "plain_row fmt m"
  shows "join_tab (map csv_field (row_fields fmt m)) = join_tab (row_fields fmt m)"
    and "LF \<notin> set (join_tab (row_fields fmt m))"
    and "split_on TAB (join_tab (row_fields fmt m)) = row_fields fmt m"
proof -
  have "map csv_field (row_fields fmt m) = row_fields fmt m"
    using plain_row_fields [OF assms] by (simp add: map_idI csv_field_plain)
  then show "join_tab (map csv_field (row_fields fmt m)) = join_tab (row_fields fmt m)"
    by simp
  show "LF \<notin> set (join_tab (row_fields fmt m))"
    using set_join_tab [of "row_fields fmt m"] plain_row_fields [OF assms] plain_no_special
    by fastforce
  show "split_on TAB (join_tab (row_fields fmt m)) = row_fields fmt m"
    using plain_row_fields [OF assms] plain_no_special
    by (intro split_on_join_tab) (auto simp: row_fields_def)
qed

lemma to_csv_Cons:
  "to_csv fmt (m # rows) = join_tab (map csv_field (row_fields fmt m)) @ LF # to_csv fmt rows"
  by (simp add: to_csv_def)

lemma lines_of_to_csv:
  "\<forall>m\<in>set rows. plain_row fmt m \<Longrightarrow>
     map (split_on TAB) (lines_of (to_csv fmt rows)) = map (row_fields fmt) rows"
proof (induction rows)
  case Nil
  show ?case by (simp add: to_csv_def lines_of_def)
next
  case (Cons m rows)
  then have pm: "plain_row fmt m" by simp
  have "lines_of (to_csv fmt (m # rows))
      = join_tab (row_fields fmt m) # lines_of (to_csv fmt rows)"
    by (simp add: to_csv_Cons row_line_plain [OF pm] split_on_append lines_of_def)
  with Cons show ?case
    by (simp add: row_line_plain [OF pm])
qed

text \<open>
  \<^bold>\<open>C9\<close>, as the script has it. For rows of \<open>merged\<close> none of whose written fields has a
  tab, a quote or a newline in it, the text has no header and one line per row, in
  order, and every line is made of exactly six tab-separated fields: \<open>chrom\<close>, \<open>start\<close>,
  \<open>stop\<close>, \<open>bc\<close>, \<open>ndupes\<close>, \<open>strand\<close>, each as the writer prints a cell of its column. (A
  field with one of these characters is written between quotes, with the character left
  in it.)
\<close>

theorem to_csv_six_fields:
  "(\<forall>m\<in>set rows. plain_row fmt m) \<longrightarrow>
     map (split_on TAB) (lines_of (to_csv fmt rows)) =
     map (\<lambda>m. [str_chrom fmt (m_chrom m), str_start fmt (m_start m), str_stop fmt (m_stop m),
               m_bc m, str_int (ndupes m), str_strand fmt (m_strand m)]) rows"
proof
  assume "\<forall>m\<in>set rows. plain_row fmt m"
  then have "map (split_on TAB) (lines_of (to_csv fmt rows)) = map (row_fields fmt) rows"
    by (rule lines_of_to_csv)
  then show "map (split_on TAB) (lines_of (to_csv fmt rows)) =
     map (\<lambda>m. [str_chrom fmt (m_chrom m), str_start fmt (m_start m), str_stop fmt (m_stop m),
               m_bc m, str_int (ndupes m), str_strand fmt (m_strand m)]) rows"
    by (simp add: row_fields_def)
qed

lemma str_int_examples:
  "str_int 100 = ''100''" "str_int 110 = ''110''" "str_int 3 = ''3''" "str_int 1 = ''1''"
  by (simp_all add: str_int_def digits.simps)

theorem to_csv_six_fields_witness:
  "plain_row bed6_format scenario_A_merged
   \<and> map (split_on TAB) (lines_of (to_csv bed6_format [scenario_A_merged]))
       = [[''chr1'', ''100'', ''110'', ''AAGG'', ''3'', ''+'']]"
proof -
  have p: "\<forall>m\<in>set [scenario_A_merged]. plain_row bed6_format m"
    by (simp add: plain_row_def plain_def special_def scenario_A_merged_def bed6_format_def
        str_int_examples)
  from p to_csv_six_fields [of "[scenario_A_merged]" bed6_format]
  have "map (split_on TAB) (lines_of (to_csv bed6_format [scenario_A_merged])) =
     map (\<lambda>m. [str_chrom bed6_format (m_chrom m), str_start bed6_format (m_start m),
               str_stop bed6_format (m_stop m), m_bc m, str_int (ndupes m),
               str_strand bed6_format (m_strand m)]) [scenario_A_merged]"
    by blast
  moreover from p have "plain_row bed6_format scenario_A_merged" by simp
  ultimately show ?thesis
    by (simp add: scenario_A_merged_def bed6_format_def str_int_examples)
qed

text \<open>The claim as stated, at a row whose \<open>chrom\<close> is \<open>a\<close>, a tab, \<open>b\<close>: the line written is
  cut by its tabs into seven pieces, not six.\<close>

theorem to_csv_six_fields_counterexample:
  "map (split_on TAB) (lines_of (to_csv bed6_format [tab_chrom]))
     = [[[QUOTE, CHR ''a''], [CHR ''b'', QUOTE], ''100'', ''110'', ''AAGG'', ''1'', ''+'']]"
  by (simp add: to_csv_def row_fields_def tab_chrom_def bed6_format_def csv_field_def
      special_def lines_of_def str_int_examples split_on_step del: split_on.simps(2))

section \<open>Properties of the loader\<close>






end
